theory Spec2Isabelle
  imports Complex_Main "HOL-Library.Sublist" "HOL-Library.Char_ord" "HOL-Library.List_Lexorder"
    "HOL-Library.Multiset"
begin

section \<open>Python values shared by the demo servers\<close>

text \<open>
  The four demo servers are Python scripts. Their handlers receive a tool name and an
  \<open>arguments\<close> dictionary and return one \<open>TextContent\<close>, of which only the \<open>text\<close>
  matters. The model therefore returns the text as a \<open>string\<close>. A raised exception is a
  value \<open>Inl e\<close>; a module-level global is a field of an explicit state record that the
  handler takes and returns.

  Strings are lists of 8-bit characters; the texts built by the handlers are ASCII.
\<close>

datatype exn =
    KeyError string
  | ValueError string
  | TypeError string
  | IndexError string
  | ZeroDivisionError string
  | OverflowError string

definition quoted :: "string \<Rightarrow> string" where
  \<comment> \<open>\<open>'s'\<close>: a string between single quotes, as \<open>repr\<close> prints an identifier-like key.\<close>
  "quoted s = CHR 0x27 # s @ [CHR 0x27]"

fun str_exn :: "exn \<Rightarrow> string" where
  \<comment> \<open>\<open>str(e)\<close>: a \<open>KeyError\<close> prints the \<open>repr\<close> of the missing key, the others their message.\<close>
  "str_exn (KeyError k) = quoted k"
| "str_exn (ValueError m) = m"
| "str_exn (TypeError m) = m"
| "str_exn (IndexError m) = m"
| "str_exn (ZeroDivisionError m) = m"
| "str_exn (OverflowError m) = m"

text \<open>A JSON number reaches Python as an \<open>int\<close> or a \<open>float\<close>. Floats are modelled by the
  real numbers they approximate: rounding error, infinities and NaN are outside the model.\<close>

datatype number = I int | F real

fun num_val :: "number \<Rightarrow> real" where
  \<comment> \<open>\<open>float(x)\<close>\<close>
  "num_val (I i) = of_int i"
| "num_val (F r) = r"

fun num_add :: "number \<Rightarrow> number \<Rightarrow> number" where
  \<comment> \<open>\<open>a + b\<close>: an \<open>int\<close> only when both operands are.\<close>
  "num_add (I a) (I b) = I (a + b)"
| "num_add a b = F (num_val a + num_val b)"

definition true_div :: "number \<Rightarrow> number \<Rightarrow> number" where
  \<comment> \<open>\<open>a / b\<close> for a divisor that is not zero (every call site divides by a positive
      length or by 2): always a \<open>float\<close>.\<close>
  "true_div a b = F (num_val a / num_val b)"

definition py_sum :: "number list \<Rightarrow> number" where
  \<comment> \<open>\<open>sum(xs)\<close>: starts from the \<open>int\<close> 0 and adds from the left.\<close>
  "py_sum xs = foldl num_add (I 0) xs"

subsection \<open>Text helpers\<close>

definition digit_char :: "nat \<Rightarrow> char" where
  "digit_char d = ''0123456789'' ! d"

fun str_nat :: "nat \<Rightarrow> string" where
  "str_nat n = (if n < 10 then [digit_char n] else str_nat (n div 10) @ [digit_char (n mod 10)])"

declare str_nat.simps [simp del]

definition str_int :: "int \<Rightarrow> string" where
  \<comment> \<open>\<open>str(i)\<close> for an \<open>int\<close>\<close>
  "str_int i = (if i < 0 then CHR ''-'' # str_nat (nat (- i)) else str_nat (nat i))"

fun join :: "string \<Rightarrow> string list \<Rightarrow> string" where
  \<comment> \<open>\<open>sep.join(xs)\<close>\<close>
  "join sep [] = []"
| "join sep [x] = x"
| "join sep (x # y # ys) = x @ sep @ join sep (y # ys)"

definition lower_char :: "char \<Rightarrow> char" where
  "lower_char c =
     (case map_of (zip ''ABCDEFGHIJKLMNOPQRSTUVWXYZ'' ''abcdefghijklmnopqrstuvwxyz'') c of
        Some l \<Rightarrow> l
      | None \<Rightarrow> c)"

definition lower :: "string \<Rightarrow> string" where
  \<comment> \<open>\<open>s.lower()\<close> on ASCII text\<close>
  "lower s = map lower_char s"

fun contains :: "string \<Rightarrow> string \<Rightarrow> bool" where
  \<comment> \<open>\<open>sub in s\<close>\<close>
  "contains sub [] = (sub = [])"
| "contains sub (c # cs) = (prefix sub (c # cs) \<or> contains sub cs)"

function replace :: "string \<Rightarrow> string \<Rightarrow> string \<Rightarrow> string" where
  \<comment> \<open>\<open>s.replace(old, new)\<close> for a non-empty \<open>old\<close> (the source only replaces
      \<open>"ans"\<close>, \<open>" "\<close> and \<open>"^"\<close>): the occurrences are taken from the left and do not overlap.\<close>
  "replace old new [] = []"
| "replace old new (c # cs) =
     (if old \<noteq> [] \<and> prefix old (c # cs)
      then new @ replace old new (drop (length old) (c # cs))
      else c # replace old new cs)"
  by pat_completeness auto
termination
  by (relation "measure (\<lambda>(old, new, s). length s)") auto

definition slice_from :: "int \<Rightarrow> 'a list \<Rightarrow> 'a list" where
  \<comment> \<open>\<open>xs[start:]\<close>: a negative start counts from the end; both are clamped to the list.\<close>
  "slice_from start xs =
     (let n = int (length xs);
          s = (if start < 0 then max 0 (n + start) else min n start)
      in drop (nat s) xs)"


section \<open>calculator\_server.py\<close>

text \<open>
  The module keeps two globals, \<open>calculation_history\<close> and \<open>last_result\<close>. The functions
  of the Python runtime that the handler calls and that are not part of the repository are
  parameters of the model, gathered in one record: how a float prints, and what \<open>eval\<close>
  makes of an expression.
\<close>

record calc_state =
  last_result :: number
  calculation_history :: "string list"

definition initial_calc_state :: calc_state where
  "initial_calc_state = \<lparr>last_result = I 0, calculation_history = []\<rparr>"

record pyrt =
  str_float :: "real \<Rightarrow> string"
    \<comment> \<open>\<open>str(x)\<close> and \<open>f"{x}"\<close> of a float\<close>
  format_4f :: "real \<Rightarrow> string"
    \<comment> \<open>\<open>f"{x:.4f}"\<close>\<close>
  eval_float :: "string \<Rightarrow> exn + real"
    \<comment> \<open>\<open>float(eval(expr, {"__builtins__": {}}, allowed_names))\<close>, \<open>Inl\<close> the exception raised\<close>
  math_call :: "string \<Rightarrow> number list \<Rightarrow> exn + number"
    \<comment> \<open>\<open>math.<name>(*args)\<close>, \<open>Inl\<close> the exception raised\<close>

text \<open>The \<open>arguments\<close> dictionary, restricted to the keys the handler reads. Each key has
  the type its tool's \<open>input_schema\<close> declares and may be absent.\<close>

record calc_arguments =
  arg_expression :: "string option"
  arg_operation :: "string option"
  arg_value :: "number option"
  arg_base :: "number option"
  arg_numbers :: "number list option"
  arg_from_unit :: "string option"
  arg_to_unit :: "string option"
  arg_limit :: "int option"

definition no_calc_arguments :: calc_arguments where
  "no_calc_arguments = \<lparr>arg_expression = None, arg_operation = None, arg_value = None,
     arg_base = None, arg_numbers = None, arg_from_unit = None, arg_to_unit = None,
     arg_limit = None\<rparr>"

definition str_num :: "pyrt \<Rightarrow> number \<Rightarrow> string" where
  "str_num rt x = (case x of I i \<Rightarrow> str_int i | F r \<Rightarrow> str_float rt r)"

definition str_num_list :: "pyrt \<Rightarrow> number list \<Rightarrow> string" where
  \<comment> \<open>\<open>str(xs)\<close> of a list of numbers\<close>
  "str_num_list rt xs = ''['' @ join '', '' (map (str_num rt) xs) @ '']''"

subsection \<open>safe\_eval\<close>

definition valid_chars :: "char list" where
  "valid_chars = ''0123456789+-*/().,''"

definition safe_eval :: "pyrt \<Rightarrow> string \<Rightarrow> exn + real" where
  "safe_eval rt expression =
     (let expr = replace '' '' [] expression in
      if \<not> list_all (\<lambda>c. c \<in> set valid_chars) expr
      then Inl (ValueError (''Invalid characters in expression: '' @ expression))
      else
        (let expr' = replace ''^'' ''**'' expr in
         case eval_float rt expr' of
           Inl e \<Rightarrow> Inl (ValueError (''Invalid expression: '' @ str_exn e))
         | Inr result \<Rightarrow> Inr result))"

subsection \<open>The tools\<close>

definition calculate :: "pyrt \<Rightarrow> calc_state \<Rightarrow> calc_arguments \<Rightarrow> (exn + string) \<times> calc_state" where
  "calculate rt st arguments =
     (case arg_expression arguments of
        None \<Rightarrow> (Inl (KeyError ''expression''), st)
      | Some expression0 \<Rightarrow>
          (let expression =
                 (if contains ''ans'' (lower expression0)
                  then replace ''ans'' (str_num rt (last_result st)) (lower expression0)
                  else expression0)
           in case safe_eval rt expression of
                Inl e \<Rightarrow> (Inl e, st)
              | Inr result \<Rightarrow>
                  (let history_entry = expression @ '' = '' @ str_float rt result
                   in (Inr history_entry,
                       st\<lparr>last_result := F result,
                          calculation_history := calculation_history st @ [history_entry]\<rparr>))))"

definition history :: "calc_state \<Rightarrow> calc_arguments \<Rightarrow> exn + string" where
  "history st arguments =
     (let limit = (case arg_limit arguments of None \<Rightarrow> 10 | Some l \<Rightarrow> l);
          recent = (if calculation_history st \<noteq> []
                    then slice_from (- limit) (calculation_history st) else [])
      in if recent = [] then Inr ''No calculation history''
         else Inr (''Recent calculations:'' @ [CHR 0x0A] @ join [CHR 0x0A] recent))"

definition py_int :: "real \<Rightarrow> int" where
  \<comment> \<open>\<open>int(x)\<close> of a float: truncation towards zero\<close>
  "py_int x = (if x < 0 then \<lceil>x\<rceil> else \<lfloor>x\<rfloor>)"

definition scientific_result ::
  "pyrt \<Rightarrow> string \<Rightarrow> real \<Rightarrow> calc_arguments \<Rightarrow> (exn + number) option" where
  \<comment> \<open>The \<open>if\<close>/\<open>elif\<close> chain of \<open>scientific_calc\<close> that computes \<open>result\<close>; \<open>None\<close> is its
      final \<open>else\<close>.\<close>
  "scientific_result rt operation v arguments =
     (if operation = ''sin'' then
        Some (case math_call rt ''radians'' [F v] of Inl e \<Rightarrow> Inl e | Inr r \<Rightarrow> math_call rt ''sin'' [r])
      else if operation = ''cos'' then
        Some (case math_call rt ''radians'' [F v] of Inl e \<Rightarrow> Inl e | Inr r \<Rightarrow> math_call rt ''cos'' [r])
      else if operation = ''tan'' then
        Some (case math_call rt ''radians'' [F v] of Inl e \<Rightarrow> Inl e | Inr r \<Rightarrow> math_call rt ''tan'' [r])
      else if operation = ''log'' then
        (let base = num_val (case arg_base arguments of None \<Rightarrow> I 10 | Some b \<Rightarrow> b)
         in Some (math_call rt ''log'' [F v, F base]))
      else if operation = ''ln'' then Some (math_call rt ''log'' [F v])
      else if operation = ''sqrt'' then Some (math_call rt ''sqrt'' [F v])
      else if operation = ''pow'' then
        (let base = num_val (case arg_base arguments of None \<Rightarrow> I 2 | Some b \<Rightarrow> b)
         in Some (math_call rt ''pow'' [F v, F base]))
      else if operation = ''factorial'' then Some (math_call rt ''factorial'' [I (py_int v)])
      else None)"

definition scientific_calc ::
  "pyrt \<Rightarrow> calc_state \<Rightarrow> calc_arguments \<Rightarrow> (exn + string) \<times> calc_state" where
  "scientific_calc rt st arguments =
     (case arg_operation arguments of
        None \<Rightarrow> (Inl (KeyError ''operation''), st)
      | Some operation \<Rightarrow>
     (case arg_value arguments of
        None \<Rightarrow> (Inl (KeyError ''value''), st)
      | Some v \<Rightarrow>
     (case scientific_result rt operation (num_val v) arguments of
        None \<Rightarrow> (Inr (''Unknown operation: '' @ operation), st)
      | Some (Inl e) \<Rightarrow> (Inl e, st)
      | Some (Inr result) \<Rightarrow>
          (let history_entry =
                 operation @ ''('' @ str_float rt (num_val v) @ '') = '' @ str_num rt result
           in (Inr history_entry,
               st\<lparr>last_result := result,
                  calculation_history := calculation_history st @ [history_entry]\<rparr>)))))"

fun count_into :: "(number \<times> nat) list \<Rightarrow> number \<Rightarrow> (number \<times> nat) list" where
  \<comment> \<open>One step of \<open>Counter(numbers)\<close>: equal numbers share the key that came first.\<close>
  "count_into [] x = [(x, 1)]"
| "count_into ((k, c) # kcs) x =
     (if num_val k = num_val x then (k, Suc c) # kcs else (k, c) # count_into kcs x)"

definition Counter :: "number list \<Rightarrow> (number \<times> nat) list" where
  "Counter xs = foldl count_into [] xs"

datatype stat_result = Single number | Several "number list"

definition str_stat_result :: "pyrt \<Rightarrow> stat_result \<Rightarrow> string" where
  "str_stat_result rt r = (case r of Single x \<Rightarrow> str_num rt x | Several xs \<Rightarrow> str_num_list rt xs)"

definition statistics_result :: "string \<Rightarrow> number list \<Rightarrow> stat_result option" where
  \<comment> \<open>The \<open>if\<close>/\<open>elif\<close> chain of \<open>statistics\<close> that computes \<open>result\<close> from a non-empty
      list; \<open>None\<close> is its final \<open>else\<close>.\<close>
  "statistics_result operation numbers =
     (if operation = ''mean'' then
        Some (Single (true_div (py_sum numbers) (I (int (length numbers)))))
      else if operation = ''median'' then
        (let sorted_nums = sort_key num_val numbers;
             n = length sorted_nums
         in if n mod 2 = 0
            then Some (Single (true_div (num_add (sorted_nums ! (n div 2 - 1)) (sorted_nums ! (n div 2))) (I 2)))
            else Some (Single (sorted_nums ! (n div 2))))
      else if operation = ''mode'' then
        (let counts = Counter numbers;
             max_count = fold max (map snd counts) 0;
             modes = map fst (filter (\<lambda>(k, v). v = max_count) counts)
         in Some (if length modes = 1 then Single (hd modes) else Several modes))
      else if operation = ''std_dev'' then
        (let mean = true_div (py_sum numbers) (I (int (length numbers)));
             variance = true_div
               (py_sum (map (\<lambda>x. F ((num_val x - num_val mean) ^ 2)) numbers))
               (I (int (length numbers)))
         in Some (Single (F (sqrt (num_val variance)))))
      else if operation = ''sum'' then Some (Single (py_sum numbers))
      else None)"

definition statistics :: "pyrt \<Rightarrow> calc_arguments \<Rightarrow> exn + string" where
  "statistics rt arguments =
     (case arg_numbers arguments of
        None \<Rightarrow> Inl (KeyError ''numbers'')
      | Some numbers \<Rightarrow>
     (case arg_operation arguments of
        None \<Rightarrow> Inl (KeyError ''operation'')
      | Some operation \<Rightarrow>
          if numbers = [] then Inr ''No numbers provided''
          else (case statistics_result operation numbers of
                  None \<Rightarrow> Inr (''Unknown operation: '' @ operation)
                | Some result \<Rightarrow>
                    Inr (operation @ '' of '' @ str_num_list rt numbers @ '' = ''
                         @ str_stat_result rt result))))"

definition conversions :: "((string \<times> string) \<times> (real \<Rightarrow> real)) list" where
  "conversions =
     [((''km'', ''miles''), \<lambda>x. x * 0.621371),
      ((''miles'', ''km''), \<lambda>x. x * 1.60934),
      ((''m'', ''ft''), \<lambda>x. x * 3.28084),
      ((''ft'', ''m''), \<lambda>x. x / 3.28084),
      ((''celsius'', ''fahrenheit''), \<lambda>x. x * 9 / 5 + 32),
      ((''fahrenheit'', ''celsius''), \<lambda>x. (x - 32) * 5 / 9),
      ((''kg'', ''lbs''), \<lambda>x. x * 2.20462),
      ((''lbs'', ''kg''), \<lambda>x. x / 2.20462)]"

definition unit_convert :: "pyrt \<Rightarrow> calc_arguments \<Rightarrow> exn + string" where
  "unit_convert rt arguments =
     (case arg_value arguments of
        None \<Rightarrow> Inl (KeyError ''value'')
      | Some v \<Rightarrow>
     (case arg_from_unit arguments of
        None \<Rightarrow> Inl (KeyError ''from_unit'')
      | Some fu \<Rightarrow>
     (case arg_to_unit arguments of
        None \<Rightarrow> Inl (KeyError ''to_unit'')
      | Some tu \<Rightarrow>
          (let val = num_val v; from_unit = lower fu; to_unit = lower tu;
               key = (from_unit, to_unit)
           in case map_of conversions key of
                Some f \<Rightarrow>
                  (let result = f val
                   in Inr (str_float rt val @ '' '' @ from_unit @ '' = ''
                           @ format_4f rt result @ '' '' @ to_unit))
              | None \<Rightarrow>
                  Inr (''Conversion from '' @ from_unit @ '' to '' @ to_unit
                       @ '' not supported'')))))"

subsection \<open>call\_tool\<close>

definition calculator_try ::
  "pyrt \<Rightarrow> calc_state \<Rightarrow> string \<Rightarrow> calc_arguments \<Rightarrow> (exn + string) \<times> calc_state" where
  \<comment> \<open>The body of the \<open>try\<close> block: the text returned or the exception raised, and the
      globals as they are at that moment.\<close>
  "calculator_try rt st name arguments =
     (if name = ''calculate'' then calculate rt st arguments
      else if name = ''scientific_calc'' then scientific_calc rt st arguments
      else if name = ''statistics'' then (statistics rt arguments, st)
      else if name = ''unit_convert'' then (unit_convert rt arguments, st)
      else if name = ''history'' then (history st arguments, st)
      else (Inr (''Unknown tool: '' @ name), st))"

definition calculator_call_tool ::
  "pyrt \<Rightarrow> calc_state \<Rightarrow> string \<Rightarrow> calc_arguments \<Rightarrow> string \<times> calc_state" where
  \<comment> \<open>\<open>try: ... except Exception as e: return "Error: " + str(e)\<close>\<close>
  "calculator_call_tool rt st name arguments =
     (case calculator_try rt st name arguments of
        (Inl e, st') \<Rightarrow> (''Error: '' @ str_exn e, st')
      | (Inr t, st') \<Rightarrow> (t, st'))"

definition sample_rt :: pyrt where
  \<comment> \<open>A small runtime to run the model on: it knows one expression and prints floats
      that are whole numbers.\<close>
  "sample_rt =
     \<lparr>str_float = (\<lambda>r. str_int \<lfloor>r\<rfloor> @ ''.0''),
      format_4f = (\<lambda>r. str_int \<lfloor>r\<rfloor> @ ''.0000''),
      eval_float = (\<lambda>s. if s = ''2+3'' then Inr 5 else Inl (TypeError ''unsupported'')),
      math_call = (\<lambda>f xs. Inl (ValueError ''math domain error''))\<rparr>"

subsection \<open>Reference statistics\<close>




section \<open>dynamic\_server.py\<close>

text \<open>
  A \<open>DynamicServer\<close> owns the dictionary \<open>custom_tools\<close> and, inside the library's
  \<open>Server\<close> object, the dictionary \<open>server._tools\<close>. A tool is known here by its name and
  description; its schema and handler are the same for every dynamic tool. The handlers
  return \<open>json.dumps\<close> of an object; the model returns the object. The coroutine
  \<open>send_tools_changed_notification\<close> belongs to the library: what it raises, if anything,
  is the parameter \<open>notify\<close>.
\<close>

record tool =
  tool_name :: string
  tool_description :: string

record dynamic_server =
  custom_tools :: "string \<rightharpoonup> tool"
  server_tools :: "string \<rightharpoonup> tool"

datatype json = JString string | JBool bool | JObject "(string \<times> json) list"

definition init_dynamic_server :: "(string \<rightharpoonup> tool) \<Rightarrow> dynamic_server" where
  \<comment> \<open>\<open>__init__\<close>: \<open>custom_tools\<close> starts empty; \<open>base\<close> is what registering the six base
      tools leaves in \<open>server._tools\<close>.\<close>
  "init_dynamic_server base = \<lparr>custom_tools = Map.empty, server_tools = base\<rparr>"

definition add_tool ::
  "exn option \<Rightarrow> dynamic_server \<Rightarrow> string \<Rightarrow> string \<Rightarrow> (exn + json) \<times> dynamic_server" where
  "add_tool notify srv name description =
     (if name \<in> dom (custom_tools srv)
      then (Inr (JObject [(''error'', JString (''Tool '' @ quoted name @ '' already exists''))]), srv)
      else
        (let t = \<lparr>tool_name = name, tool_description = description\<rparr>;
             srv1 = srv\<lparr>custom_tools := (custom_tools srv)(name \<mapsto> t)\<rparr>;
             srv2 = srv1\<lparr>server_tools := (server_tools srv1)(name \<mapsto> t)\<rparr>
         in case notify of
              Some e \<Rightarrow> (Inl e, srv2)
            | None \<Rightarrow>
                (Inr (JObject [(''success'', JBool True), (''tool'', JString name),
                               (''message'', JString (''Tool '' @ quoted name @ '' added successfully''))]),
                 srv2)))"

definition remove_tool ::
  "exn option \<Rightarrow> dynamic_server \<Rightarrow> string \<Rightarrow> (exn + json) \<times> dynamic_server" where
  "remove_tool notify srv name =
     (if name \<notin> dom (custom_tools srv)
      then (Inr (JObject [(''error'',
                  JString (''Tool '' @ quoted name @ '' not found or is not removable''))]), srv)
      else
        (let srv1 = srv\<lparr>custom_tools := (custom_tools srv)(name := None)\<rparr>
         in if name \<notin> dom (server_tools srv1) then (Inl (KeyError name), srv1)
            else
              (let srv2 = srv1\<lparr>server_tools := (server_tools srv1)(name := None)\<rparr>
               in case notify of
                    Some e \<Rightarrow> (Inl e, srv2)
                  | None \<Rightarrow>
                      (Inr (JObject [(''success'', JBool True), (''tool'', JString name),
                                     (''message'',
                                      JString (''Tool '' @ quoted name @ '' removed successfully''))]),
                       srv2))))"

definition tools_invariant :: "dynamic_server \<Rightarrow> bool" where
  \<comment> \<open>Every key of \<open>custom_tools\<close> is a key of \<open>server._tools\<close>.\<close>
  "tools_invariant srv = (dom (custom_tools srv) \<subseteq> dom (server_tools srv))"

section \<open>time\_server.py\<close>

text \<open>
  The time server has no globals besides the constant table \<open>TIMEZONES\<close>. Every argument
  of its tools is a string. The clock, \<open>pytz\<close> and \<open>datetime\<close> are not part of the
  repository: their functions are the fields of one record, over a type \<open>'tz\<close> of time zones
  and a type \<open>'dt\<close> of datetimes. The handler has no \<open>try\<close>: an exception raised in it
  leaves it, which the model shows as \<open>Inl\<close>.
\<close>

definition TIMEZONES :: "(string \<times> string) list" where
  "TIMEZONES =
     [(''UTC'', ''UTC''),
      (''EST'', ''America/New_York''),
      (''PST'', ''America/Los_Angeles''),
      (''CST'', ''America/Chicago''),
      (''MST'', ''America/Denver''),
      (''GMT'', ''Europe/London''),
      (''CET'', ''Europe/Paris''),
      (''JST'', ''Asia/Tokyo''),
      (''AEST'', ''Australia/Sydney'')]"

definition TIMEZONES_get :: "string \<Rightarrow> string \<Rightarrow> string" where
  \<comment> \<open>\<open>TIMEZONES.get(code, default)\<close>\<close>
  "TIMEZONES_get code dflt = (case map_of TIMEZONES code of Some n \<Rightarrow> n | None \<Rightarrow> dflt)"

record timedelta =
  td_days :: int
  td_seconds :: int
  td_microseconds :: int

definition total_seconds :: "timedelta \<Rightarrow> real" where
  "total_seconds d =
     of_int (td_days d) * 86400 + of_int (td_seconds d) + of_int (td_microseconds d) / 1000000"

record ('tz, 'dt) timelib =
  pytz_timezone :: "string \<Rightarrow> exn + 'tz"
    \<comment> \<open>\<open>pytz.timezone(name)\<close>, \<open>Inl\<close> for a name it does not know\<close>
  datetime_now :: "'tz \<Rightarrow> 'dt"
    \<comment> \<open>\<open>datetime.now(tz)\<close>\<close>
  today :: string
    \<comment> \<open>\<open>f"{datetime.now().date()}"\<close>\<close>
  strftime :: "'dt \<Rightarrow> string \<Rightarrow> string"
    \<comment> \<open>\<open>dt.strftime(format)\<close>\<close>
  strptime :: "string \<Rightarrow> string \<Rightarrow> exn + 'dt"
    \<comment> \<open>\<open>datetime.strptime(text, format)\<close>, \<open>Inl\<close> the \<open>ValueError\<close> of a text that does not
        match\<close>
  localize :: "'tz \<Rightarrow> 'dt \<Rightarrow> 'dt"
    \<comment> \<open>\<open>tz.localize(dt)\<close>\<close>
  astimezone :: "'dt \<Rightarrow> 'tz \<Rightarrow> 'dt"
    \<comment> \<open>\<open>dt.astimezone(tz)\<close>\<close>
  minus :: "'dt \<Rightarrow> 'dt \<Rightarrow> timedelta"
    \<comment> \<open>\<open>a - b\<close>\<close>

record time_arguments =
  time_timezone :: "string option"
  time_format :: "string option"
  time_target_date :: "string option"
  time_target_time :: "string option"
  time_time :: "string option"
  time_from_timezone :: "string option"
  time_to_timezone :: "string option"

definition no_time_arguments :: time_arguments where
  "no_time_arguments = \<lparr>time_timezone = None, time_format = None, time_target_date = None,
     time_target_time = None, time_time = None, time_from_timezone = None,
     time_to_timezone = None\<rparr>"

definition get_or :: "'a option \<Rightarrow> 'a \<Rightarrow> 'a" where
  \<comment> \<open>\<open>arguments.get(key, default)\<close>\<close>
  "get_or v dflt = (case v of None \<Rightarrow> dflt | Some x \<Rightarrow> x)"

definition get_current_time :: "('tz, 'dt) timelib \<Rightarrow> time_arguments \<Rightarrow> exn + string" where
  "get_current_time lib arguments =
     (let tz_code = get_or (time_timezone arguments) ''UTC'';
          tz_name = TIMEZONES_get tz_code ''UTC'';
          format_type = get_or (time_format arguments) ''24h''
      in case pytz_timezone lib tz_name of
           Inl e \<Rightarrow> Inl e
         | Inr tz \<Rightarrow>
             (let now = datetime_now lib tz;
                  time_str = (if format_type = ''12h'' then strftime lib now ''%I:%M:%S %p''
                              else strftime lib now ''%H:%M:%S'')
              in Inr (''Current time in '' @ tz_code @ '': '' @ time_str)))"

definition get_date :: "('tz, 'dt) timelib \<Rightarrow> time_arguments \<Rightarrow> exn + string" where
  "get_date lib arguments =
     (let tz_code = get_or (time_timezone arguments) ''UTC'';
          tz_name = TIMEZONES_get tz_code ''UTC'';
          format_type = get_or (time_format arguments) ''iso''
      in case pytz_timezone lib tz_name of
           Inl e \<Rightarrow> Inl e
         | Inr tz \<Rightarrow>
             (let now = datetime_now lib tz;
                  date_str = (if format_type = ''us'' then strftime lib now ''%m/%d/%Y''
                              else if format_type = ''eu'' then strftime lib now ''%d/%m/%Y''
                              else strftime lib now ''%Y-%m-%d'')
              in Inr (''Current date in '' @ tz_code @ '': '' @ date_str)))"

definition time_until :: "('tz, 'dt) timelib \<Rightarrow> time_arguments \<Rightarrow> exn + string" where
  "time_until lib arguments =
     (case time_target_date arguments of
        None \<Rightarrow> Inl (KeyError ''target_date'')
      | Some target_date \<Rightarrow>
          (let target_time = get_or (time_target_time arguments) ''00:00'';
               tz_code = get_or (time_timezone arguments) ''UTC'';
               tz_name = TIMEZONES_get tz_code ''UTC'';
               target_str = target_date @ '' '' @ target_time
           in case pytz_timezone lib tz_name of
                Inl e \<Rightarrow> Inl e
              | Inr tz \<Rightarrow>
                  (case strptime lib target_str ''%Y-%m-%d %H:%M'' of
                     Inl e \<Rightarrow> Inl e
                   | Inr parsed \<Rightarrow>
                       (let target = localize lib tz parsed;
                            now = datetime_now lib tz;
                            diff = minus lib target now
                        in if total_seconds diff < 0
                           then Inr (''The target date '' @ target_str @ '' has already passed!'')
                           else
                             (let days = td_days diff;
                                  hours = td_seconds diff div 3600;
                                  minutes = (td_seconds diff mod 3600) div 60
                              in Inr (''Time until '' @ target_str @ '' '' @ tz_code @ '': ''
                                      @ str_int days @ '' days, '' @ str_int hours @ '' hours, ''
                                      @ str_int minutes @ '' minutes''))))))"

definition timezone_converter :: "('tz, 'dt) timelib \<Rightarrow> time_arguments \<Rightarrow> exn + string" where
  "timezone_converter lib arguments =
     (case time_time arguments of
        None \<Rightarrow> Inl (KeyError ''time'')
      | Some time_str \<Rightarrow>
     (case time_from_timezone arguments of
        None \<Rightarrow> Inl (KeyError ''from_timezone'')
      | Some from_code \<Rightarrow>
     (case time_to_timezone arguments of
        None \<Rightarrow> Inl (KeyError ''to_timezone'')
      | Some to_code \<Rightarrow>
          (let from_tz = TIMEZONES_get from_code ''UTC'';
               to_tz = TIMEZONES_get to_code ''UTC''
           in case strptime lib (today lib @ '' '' @ time_str) ''%Y-%m-%d %H:%M'' of
                Inl e \<Rightarrow> Inl e
              | Inr dt \<Rightarrow>
                  (case pytz_timezone lib from_tz of
                     Inl e \<Rightarrow> Inl e
                   | Inr from_zone \<Rightarrow>
                       (let dt_from = localize lib from_zone dt
                        in case pytz_timezone lib to_tz of
                             Inl e \<Rightarrow> Inl e
                           | Inr to_zone \<Rightarrow>
                               (let dt_to = astimezone lib dt_from to_zone
                                in Inr (time_str @ '' '' @ from_code @ '' = ''
                                        @ strftime lib dt_to ''%H:%M'' @ '' '' @ to_code))))))))"

definition time_call_tool ::
  "('tz, 'dt) timelib \<Rightarrow> string \<Rightarrow> time_arguments \<Rightarrow> exn + string" where
  "time_call_tool lib name arguments =
     (if name = ''get_current_time'' then get_current_time lib arguments
      else if name = ''get_date'' then get_date lib arguments
      else if name = ''time_until'' then time_until lib arguments
      else if name = ''timezone_converter'' then timezone_converter lib arguments
      else Inr (''Unknown tool: '' @ name))"

definition sample_timelib :: "(int, int) timelib" where
  \<comment> \<open>A small library to run the model on: a zone is its offset from UTC in minutes, a
      datetime is a number of minutes, the clock stands at minute 600, only \<open>UTC\<close> and
      \<open>Asia/Tokyo\<close> are known zones, and only the text \<open>12:30\<close> after the date parses.\<close>
  "sample_timelib =
     \<lparr>pytz_timezone = (\<lambda>n. if n = ''UTC'' then Inr 0 else if n = ''Asia/Tokyo'' then Inr 540
                            else Inl (KeyError n)),
      datetime_now = (\<lambda>tz. 600 + tz),
      today = ''2024-01-01'',
      strftime = (\<lambda>dt f. str_int (dt div 60) @ '':'' @ str_int (dt mod 60)),
      strptime = (\<lambda>s f. if s = ''2024-01-01 12:30'' then Inr 750
                          else Inl (ValueError ''time data does not match format'')),
      localize = (\<lambda>tz dt. dt - tz),
      astimezone = (\<lambda>dt tz. dt + tz),
      minus = (\<lambda>a b. \<lparr>td_days = 0, td_seconds = (a - b) * 60, td_microseconds = 0\<rparr>)\<rparr>"


section \<open>data\_server.py\<close>

text \<open>
  The module keeps the global \<open>data_store\<close>, a dictionary from collection names to lists of
  records, and draws from the global generator of the \<open>random\<close> module. A record is a
  dictionary from field names to values; it is an association list in insertion order. The
  values that the generators store and that a filter compares are \<open>None\<close>, numbers and
  strings.

  The tools modelled are \<open>generate_users\<close>, \<open>generate_transactions\<close>, \<open>query_data\<close> and
  \<open>clear_data\<close>, each as the branch of \<open>call_tool\<close> for its name, inside the \<open>try\<close> of the
  handler.
\<close>

datatype pyval = VNone | VNum number | VStr string

type_synonym item = "(string \<times> pyval) list"



subsection \<open>Comparing values\<close>








subsection \<open>apply\_filter\<close>

datatype condition = Ops "(string \<times> pyval) list" | Equals pyval

type_synonym filter_criteria = "(string \<times> condition) list"




subsection \<open>The runtime of the data server\<close>







subsection \<open>The random module\<close>

text \<open>
  The generator is a tape of raw draws, read from the left; a tape that has run out reads
  0. What a draw is turned into is all that the properties below depend on.
\<close>

type_synonym rng = "nat list"

fun draw :: "rng \<Rightarrow> nat \<times> rng" where
  "draw [] = (0, [])"
| "draw (r # rs) = (r, rs)"

definition randbelow :: "nat \<Rightarrow> rng \<Rightarrow> nat \<times> rng" where
  \<comment> \<open>an index below a positive \<open>n\<close>\<close>
  "randbelow n g = (case draw g of (r, g') \<Rightarrow> (r mod n, g'))"

definition pick :: "'a list \<Rightarrow> rng \<Rightarrow> 'a \<times> rng" where
  \<comment> \<open>\<open>random.choice(xs)\<close> for a list that is not empty\<close>
  "pick xs g = (case randbelow (length xs) g of (i, g') \<Rightarrow> (xs ! i, g'))"


definition randint_in :: "int \<Rightarrow> int \<Rightarrow> rng \<Rightarrow> int \<times> rng" where
  \<comment> \<open>\<open>random.randint(a, b)\<close> for \<open>a \<le> b\<close>\<close>
  "randint_in a b g = (case randbelow (nat (b - a + 1)) g of (i, g') \<Rightarrow> (a + int i, g'))"


subsection \<open>State and arguments\<close>

record data_state =
  data_store :: "string \<rightharpoonup> item list"
  random_state :: rng

record data_arguments =
  data_count :: "int option"
  data_include_fields :: "string list option"
  data_days_back :: "int option"
  data_collection :: "string option"
  data_filter :: "filter_criteria option"
  data_sort_by :: "string option"
  data_limit :: "int option"

definition no_data_arguments :: data_arguments where
  "no_data_arguments = \<lparr>data_count = None, data_include_fields = None, data_days_back = None,
     data_collection = None, data_filter = None, data_sort_by = None, data_limit = None\<rparr>"

definition except_Exception :: "(exn + string) \<times> 's \<Rightarrow> string \<times> 's" where
  \<comment> \<open>\<open>except Exception as e: return "Error: " + str(e)\<close>, with the globals as the
      exception left them\<close>
  "except_Exception r =
     (case r of (Inl e, st) \<Rightarrow> (''Error: '' @ str_exn e, st) | (Inr t, st) \<Rightarrow> (t, st))"

subsection \<open>generate\_users\<close>

definition FIRST_NAMES :: "string list" where
  "FIRST_NAMES = [''Alice'', ''Bob'', ''Charlie'', ''Diana'', ''Eve'', ''Frank'', ''Grace'',
     ''Henry'', ''Iris'', ''Jack'']"

definition LAST_NAMES :: "string list" where
  "LAST_NAMES = [''Smith'', ''Johnson'', ''Williams'', ''Brown'', ''Jones'', ''Garcia'',
     ''Miller'', ''Davis'', ''Wilson'', ''Martinez'']"

definition CITIES :: "string list" where
  "CITIES = [''New York'', ''Los Angeles'', ''Chicago'', ''Houston'', ''Phoenix'',
     ''Philadelphia'', ''San Antonio'', ''San Diego'', ''Dallas'', ''Austin'']"

definition DEPARTMENTS :: "string list" where
  "DEPARTMENTS = [''Engineering'', ''Sales'', ''Marketing'', ''HR'', ''Finance'',
     ''Operations'', ''Support'', ''Research'', ''Legal'', ''Admin'']"

definition generate_email :: "string \<Rightarrow> string \<Rightarrow> rng \<Rightarrow> string \<times> rng" where
  "generate_email first_name last_name g =
     (let domains = [''email.com'', ''mail.co'', ''inbox.net'', ''post.org''];
          (domain, g') = pick domains g
      in (lower first_name @ ''.'' @ lower last_name @ ''@'' @ domain, g'))"

definition make_user :: "string list \<Rightarrow> nat \<Rightarrow> rng \<Rightarrow> item \<times> rng" where
  \<comment> \<open>The body of the loop of \<open>generate_users\<close> for one \<open>i\<close>. The lists chosen from are
      constants that are not empty, and the ranges are not empty.\<close>
  "make_user field_names i g0 =
     (let (first, g1) = pick FIRST_NAMES g0;
          (last, g2) = pick LAST_NAMES g1;
          user0 = [(''id'', VNum (I (int i + 1)))];
          user1 = (if ''name'' \<in> set field_names
                   then user0 @ [(''name'', VStr (first @ '' '' @ last))] else user0);
          (user2, g3) = (if ''email'' \<in> set field_names
                         then (let (email, g') = generate_email first last g2
                               in (user1 @ [(''email'', VStr email)], g'))
                         else (user1, g2));
          (user3, g4) = (if ''age'' \<in> set field_names
                         then (let (age, g') = randint_in 22 65 g3
                               in (user2 @ [(''age'', VNum (I age))], g'))
                         else (user2, g3));
          (user4, g5) = (if ''city'' \<in> set field_names
                         then (let (city, g') = pick CITIES g4
                               in (user3 @ [(''city'', VStr city)], g'))
                         else (user3, g4));
          (user5, g6) = (if ''department'' \<in> set field_names
                         then (let (department, g') = pick DEPARTMENTS g5
                               in (user4 @ [(''department'', VStr department)], g'))
                         else (user4, g5));
          (user6, g7) = (if ''salary'' \<in> set field_names
                         then (let (salary, g') = randint_in 40000 150000 g6
                               in (user5 @ [(''salary'', VNum (I salary))], g'))
                         else (user5, g6))
      in (user6, g7))"

fun users_loop :: "string list \<Rightarrow> nat list \<Rightarrow> rng \<Rightarrow> item list \<times> rng" where
  \<comment> \<open>\<open>for i in range(count): ... users.append(user)\<close>\<close>
  "users_loop field_names [] g = ([], g)"
| "users_loop field_names (i # rest) g =
     (let (user, g1) = make_user field_names i g;
          (users, g2) = users_loop field_names rest g1
      in (user # users, g2))"

definition py_range :: "int \<Rightarrow> nat list" where
  \<comment> \<open>\<open>range(count)\<close>: empty for a negative count\<close>
  "py_range n = [0..<nat n]"

definition generate_users :: "data_state \<Rightarrow> data_arguments \<Rightarrow> (exn + string) \<times> data_state" where
  "generate_users st arguments =
     (let n = get_or (data_count arguments) 10;
          field_names = get_or (data_include_fields arguments) [''name'', ''email'', ''age'', ''city''];
          (users, g) = users_loop field_names (py_range n) (random_state st);
          st' = st\<lparr>data_store := (data_store st)(''users'' \<mapsto> users), random_state := g\<rparr>
      in (Inr (''Generated '' @ str_int n @ '' users with fields: '' @ join '', '' field_names), st'))"

subsection \<open>generate\_transactions\<close>

definition round_half_even :: "real \<Rightarrow> int" where
  "round_half_even x =
     (let f = \<lfloor>x\<rfloor>; d = x - of_int f
      in if d < 1 / 2 then f else if 1 / 2 < d then f + 1 else if even f then f else f + 1)"

definition py_round :: "real \<Rightarrow> nat \<Rightarrow> real" where
  \<comment> \<open>\<open>round(x, ndigits)\<close> of an exact number: to the nearest multiple of
      \<open>10 ** -ndigits\<close>, a tie to the even one\<close>
  "py_round x ndigits = of_int (round_half_even (x * 10 ^ ndigits)) / 10 ^ ndigits"






subsection \<open>query\_data and clear\_data\<close>


definition clear_data :: "data_state \<Rightarrow> data_arguments \<Rightarrow> (exn + string) \<times> data_state" where
  "clear_data st arguments =
     (case data_collection arguments of
        None \<Rightarrow> (Inl (KeyError ''collection''), st)
      | Some collection \<Rightarrow>
          if collection \<in> dom (data_store st)
          then (Inr (''Cleared collection '' @ quoted collection),
                st\<lparr>data_store := (data_store st)(collection := None)\<rparr>)
          else (Inr (''Collection '' @ quoted collection @ '' not found''), st))"

subsection \<open>call\_tool, for the tools above\<close>

definition call_generate_users :: "data_state \<Rightarrow> data_arguments \<Rightarrow> string \<times> data_state" where
  "call_generate_users st arguments = except_Exception (generate_users st arguments)"



definition call_clear_data :: "data_state \<Rightarrow> data_arguments \<Rightarrow> string \<times> data_state" where
  "call_clear_data st arguments = except_Exception (clear_data st arguments)"

subsection \<open>A store to run the model on\<close>

definition sample_store :: "string \<rightharpoonup> item list" where
  "sample_store = [''products'' \<mapsto> [[(''id'', VNum (I 1)), (''name'', VStr ''Pro Laptop''),
                                      (''price'', VNum (F 19.99))]]]"


subsection \<open>The records of the generators, and what a transaction is priced from\<close>




subsection \<open>What a filter asks of a record\<close>













section \<open>Properties\<close>

subsection \<open>Slices and sums\<close>

lemma slice_from_recent: "0 < l \<Longrightarrow> slice_from (- l) xs = drop (length xs - nat l) xs"
  by (auto simp: slice_from_def Let_def max_def intro!: arg_cong2[where f=drop])

lemma slice_from_zero: "slice_from 0 xs = xs"
  by (simp add: slice_from_def)




subsection \<open>The calculator\<close>

text \<open>
  Claim C10. The \<open>history\<close> tool leaves the globals alone. With an empty history it
  answers \<open>No calculation history\<close>. With a non-empty history \<open>h\<close> and a positive
  \<open>limit\<close> (10 when the argument is absent) it lists the last \<open>limit\<close> entries of \<open>h\<close>, oldest
  first, all of \<open>h\<close> when there are fewer; with \<open>limit = 0\<close> it lists the whole of \<open>h\<close>,
  because \<open>h[-0:]\<close> is \<open>h\<close>.
\<close>

theorem history_lists_recent:
  fixes rt :: pyrt and st :: calc_state and arguments :: calc_arguments
  defines "h \<equiv> calculation_history st"
  defines "limit \<equiv> (case arg_limit arguments of None \<Rightarrow> 10 | Some l \<Rightarrow> l)"
  defines "out \<equiv> calculator_call_tool rt st ''history'' arguments"
  shows "snd out = st
       \<and> (h = [] \<longrightarrow> fst out = ''No calculation history'')
       \<and> (h \<noteq> [] \<and> 0 < limit \<longrightarrow>
            fst out = ''Recent calculations:'' @ [CHR 0x0A]
                      @ join [CHR 0x0A] (drop (length h - nat limit) h)
            \<and> length (drop (length h - nat limit) h) = min (nat limit) (length h))
       \<and> (h \<noteq> [] \<and> limit = 0 \<longrightarrow>
            fst out = ''Recent calculations:'' @ [CHR 0x0A] @ join [CHR 0x0A] h)"
proof -
  have out: "out = (case history st arguments of
                      Inl e \<Rightarrow> (''Error: '' @ str_exn e, st) | Inr t \<Rightarrow> (t, st))"
    by (simp add: out_def calculator_call_tool_def calculator_try_def split: sum.splits)
  have hist: "history st arguments =
      (let recent = (if h \<noteq> [] then slice_from (- limit) h else [])
       in if recent = [] then Inr ''No calculation history''
          else Inr (''Recent calculations:'' @ [CHR 0x0A] @ join [CHR 0x0A] recent))"
    by (simp add: history_def h_def limit_def Let_def)
  have pos: "slice_from (- limit) h = drop (length h - nat limit) h"
            "drop (length h - nat limit) h \<noteq> []"
    if "h \<noteq> []" "0 < limit"
  proof -
    show "slice_from (- limit) h = drop (length h - nat limit) h"
      using that by (simp add: slice_from_recent)
    have "length h - nat limit < length h" using that by (cases h) auto
    then show "drop (length h - nat limit) h \<noteq> []" by simp
  qed
  show ?thesis
    using pos by (auto simp: out hist Let_def slice_from_zero)
qed

theorem history_lists_recent_witness:
  "fst (calculator_call_tool sample_rt
          \<lparr>last_result = F 5,
             calculation_history = [''1+1 = 2.0'', ''2*3 = 6.0'', ''2+3 = 5.0'']\<rparr>
          ''history'' (no_calc_arguments\<lparr>arg_limit := Some 2\<rparr>))
     = ''Recent calculations:'' @ [CHR 0x0A] @ ''2*3 = 6.0'' @ [CHR 0x0A] @ ''2+3 = 5.0''
   \<and> fst (calculator_call_tool sample_rt
          \<lparr>last_result = F 5,
             calculation_history = [''1+1 = 2.0'', ''2*3 = 6.0'', ''2+3 = 5.0'']\<rparr>
          ''history'' (no_calc_arguments\<lparr>arg_limit := Some 0\<rparr>))
     = ''Recent calculations:'' @ [CHR 0x0A] @ ''1+1 = 2.0'' @ [CHR 0x0A] @ ''2*3 = 6.0''
       @ [CHR 0x0A] @ ''2+3 = 5.0''
   \<and> fst (calculator_call_tool sample_rt initial_calc_state ''history'' no_calc_arguments)
     = ''No calculation history''"
  using history_lists_recent [where rt = sample_rt
      and st = "\<lparr>last_result = F 5,
                  calculation_history = [''1+1 = 2.0'', ''2*3 = 6.0'', ''2+3 = 5.0'']\<rparr>"
      and arguments = "no_calc_arguments\<lparr>arg_limit := Some 2\<rparr>"]
    history_lists_recent [where rt = sample_rt
      and st = "\<lparr>last_result = F 5,
                  calculation_history = [''1+1 = 2.0'', ''2*3 = 6.0'', ''2+3 = 5.0'']\<rparr>"
      and arguments = "no_calc_arguments\<lparr>arg_limit := Some 0\<rparr>"]
    history_lists_recent [where rt = sample_rt and st = initial_calc_state
      and arguments = no_calc_arguments]
  by (simp add: no_calc_arguments_def initial_calc_state_def)













lemma safe_eval_raises_ValueError: "safe_eval rt expression = Inl e \<Longrightarrow> \<exists>m. e = ValueError m"
  by (auto simp: safe_eval_def Let_def split: if_splits sum.splits)


text \<open>
  Claim C3. In a call of \<open>calculate\<close> let \<open>expression\<close> be the expression handed to
  \<open>safe_eval\<close> (the given one, or its lower-cased form with \<open>ans\<close> replaced by the last
  result). If \<open>safe_eval\<close> returns \<open>result\<close>, then \<open>last_result\<close> becomes \<open>result\<close>, the
  one entry \<open><expression> = <result>\<close> is appended to \<open>calculation_history\<close>, and the
  entry is the answer. If \<open>safe_eval\<close> raises, which it only does with a \<open>ValueError\<close>,
  the answer is \<open>Error: <message>\<close> and both globals are as before.
\<close>

theorem calculate_updates_state:
  fixes rt :: pyrt and st :: calc_state
  assumes "arg_expression arguments = Some given"
  defines "expression \<equiv>
     (if contains ''ans'' (lower given)
      then replace ''ans'' (str_num rt (last_result st)) (lower given) else given)"
  defines "out \<equiv> calculator_call_tool rt st ''calculate'' arguments"
  shows "(\<forall>result. safe_eval rt expression = Inr result \<longrightarrow>
            out = (expression @ '' = '' @ str_float rt result,
                   st\<lparr>last_result := F result,
                      calculation_history :=
                        calculation_history st @ [expression @ '' = '' @ str_float rt result]\<rparr>))
       \<and> (\<forall>e. safe_eval rt expression = Inl e \<longrightarrow>
            out = (''Error: '' @ str_exn e, st) \<and> (\<exists>m. e = ValueError m))"
proof -
  have out: "out = (case calculate rt st arguments of
                      (Inl e, st') \<Rightarrow> (''Error: '' @ str_exn e, st') | (Inr t, st') \<Rightarrow> (t, st'))"
    by (simp add: out_def calculator_call_tool_def calculator_try_def)
  have calc: "calculate rt st arguments =
     (case safe_eval rt expression of
        Inl e \<Rightarrow> (Inl e, st)
      | Inr result \<Rightarrow>
          (Inr (expression @ '' = '' @ str_float rt result),
           st\<lparr>last_result := F result,
              calculation_history :=
                calculation_history st @ [expression @ '' = '' @ str_float rt result]\<rparr>))"
    using assms(1) by (simp add: calculate_def expression_def Let_def split: sum.splits)
  show ?thesis
    using safe_eval_raises_ValueError [of rt expression] by (auto simp: out calc)
qed

theorem calculate_updates_state_witness:
  "calculator_call_tool sample_rt \<lparr>last_result = I 2, calculation_history = [''1+1 = 2.0'']\<rparr>
     ''calculate'' (no_calc_arguments\<lparr>arg_expression := Some ''ANS + 3''\<rparr>)
   = (''2 + 3 = 5.0'',
      \<lparr>last_result = F 5, calculation_history = [''1+1 = 2.0'', ''2 + 3 = 5.0'']\<rparr>)
   \<and> calculator_call_tool sample_rt \<lparr>last_result = I 2, calculation_history = [''1+1 = 2.0'']\<rparr>
     ''calculate'' (no_calc_arguments\<lparr>arg_expression := Some ''2 + x''\<rparr>)
   = (''Error: Invalid characters in expression: 2 + x'',
      \<lparr>last_result = I 2, calculation_history = [''1+1 = 2.0'']\<rparr>)"
  using calculate_updates_state [where rt = sample_rt
      and st = "\<lparr>last_result = I 2, calculation_history = [''1+1 = 2.0'']\<rparr>"
      and arguments = "no_calc_arguments\<lparr>arg_expression := Some ''ANS + 3''\<rparr>"
      and given = "''ANS + 3''"]
    calculate_updates_state [where rt = sample_rt
      and st = "\<lparr>last_result = I 2, calculation_history = [''1+1 = 2.0'']\<rparr>"
      and arguments = "no_calc_arguments\<lparr>arg_expression := Some ''2 + x''\<rparr>"
      and given = "''2 + x''"]
  by (simp add: no_calc_arguments_def calculator_call_tool_def calculator_try_def calculate_def
      safe_eval_def valid_chars_def lower_def lower_char_def Let_def
      str_num_def sample_rt_def str_int_def str_nat.simps digit_char_def)

subsection \<open>The dynamic server\<close>

text \<open>
  Claim C8. The invariant "every key of \<open>custom_tools\<close> is a key of \<open>server._tools\<close>" holds
  after \<open>__init__\<close> and is kept by \<open>add_tool\<close> and by \<open>remove_tool\<close>, whatever the
  notification does; under it the second \<open>del\<close> of \<open>remove_tool\<close> never raises.
  \<open>add_tool\<close> with a name already in \<open>custom_tools\<close>, and \<open>remove_tool\<close> with a name not
  in it, return an object with the single key \<open>error\<close> and leave both dictionaries as
  they were.
\<close>

theorem dynamic_tools_invariant:
  "tools_invariant (init_dynamic_server base)
   \<and> (tools_invariant srv \<longrightarrow>
        tools_invariant (snd (add_tool notify srv name description))
      \<and> tools_invariant (snd (remove_tool notify srv name))
      \<and> (\<forall>k. fst (remove_tool notify srv name) \<noteq> Inl (KeyError k) \<or> notify = Some (KeyError k)))
   \<and> (name \<in> dom (custom_tools srv) \<longrightarrow>
        add_tool notify srv name description
        = (Inr (JObject [(''error'', JString (''Tool '' @ quoted name @ '' already exists''))]), srv))
   \<and> (name \<notin> dom (custom_tools srv) \<longrightarrow>
        remove_tool notify srv name
        = (Inr (JObject [(''error'',
                  JString (''Tool '' @ quoted name @ '' not found or is not removable''))]), srv))"
proof -
  have p0: "tools_invariant (init_dynamic_server base)"
    by (simp add: tools_invariant_def init_dynamic_server_def)
  have p1: "tools_invariant (snd (add_tool notify srv name description))" if "tools_invariant srv"
    using that by (auto simp: tools_invariant_def add_tool_def Let_def split: option.splits)
  have p2: "tools_invariant (snd (remove_tool notify srv name))" if "tools_invariant srv"
    using that by (auto simp: tools_invariant_def remove_tool_def Let_def split: option.splits)
  have p3: "fst (remove_tool notify srv name) \<noteq> Inl (KeyError k) \<or> notify = Some (KeyError k)"
    if "tools_invariant srv" for k
    using that by (auto simp: tools_invariant_def remove_tool_def Let_def split: option.splits)
  have p4: "name \<in> dom (custom_tools srv) \<longrightarrow>
        add_tool notify srv name description
        = (Inr (JObject [(''error'', JString (''Tool '' @ quoted name @ '' already exists''))]), srv)"
    by (simp add: add_tool_def)
  have p5: "name \<notin> dom (custom_tools srv) \<longrightarrow>
        remove_tool notify srv name
        = (Inr (JObject [(''error'',
                  JString (''Tool '' @ quoted name @ '' not found or is not removable''))]), srv)"
    by (simp add: remove_tool_def)
  from p0 p1 p2 p3 p4 p5 show ?thesis by blast
qed

theorem dynamic_tools_invariant_witness:
  "tools_invariant (init_dynamic_server Map.empty)
   \<and> tools_invariant (snd (add_tool None (init_dynamic_server Map.empty) ''echo'' ''Dynamic tool''))
   \<and> tools_invariant
        (snd (remove_tool None
               (snd (add_tool None (init_dynamic_server Map.empty) ''echo'' ''Dynamic tool''))
               ''echo''))
   \<and> fst (add_tool None
            (snd (add_tool None (init_dynamic_server Map.empty) ''echo'' ''Dynamic tool''))
            ''echo'' ''again'')
     = Inr (JObject [(''error'', JString (''Tool '' @ quoted ''echo'' @ '' already exists''))])
   \<and> remove_tool None (init_dynamic_server Map.empty) ''echo''
     = (Inr (JObject [(''error'',
               JString (''Tool '' @ quoted ''echo'' @ '' not found or is not removable''))]),
        init_dynamic_server Map.empty)"
  using dynamic_tools_invariant [where base = Map.empty and srv = "init_dynamic_server Map.empty"
      and notify = None and name = "''echo''" and description = "''Dynamic tool''"]
    dynamic_tools_invariant [where base = Map.empty
      and srv = "snd (add_tool None (init_dynamic_server Map.empty) ''echo'' ''Dynamic tool'')"
      and notify = None and name = "''echo''" and description = "''again''"]
  by (simp add: init_dynamic_server_def add_tool_def Let_def)

subsection \<open>The time server\<close>













text \<open>
  Claim C1. The handlers of the calculator and of the data server are one \<open>try\<close> whose
  \<open>except Exception\<close> turns the exception into the text \<open>Error: <message>\<close>. The handler of
  the time server has no \<open>try\<close>: \<open>time_until\<close> without a \<open>target_date\<close> raises
  \<open>KeyError\<close>, and a \<open>target_date\<close> or a \<open>time\<close> that \<open>strptime\<close> refuses raises its
  \<open>ValueError\<close>; both leave the handler. The calculator, asked for \<open>calculate\<close> without an
  \<open>expression\<close>, answers \<open>Error: 'expression'\<close>.
\<close>

theorem time_call_tool_raises:
  "time_call_tool lib ''time_until'' no_time_arguments = Inl (KeyError ''target_date'')
   \<and> time_call_tool sample_timelib ''time_until''
        (no_time_arguments\<lparr>time_target_date := Some ''tomorrow''\<rparr>)
     = Inl (ValueError ''time data does not match format'')
   \<and> time_call_tool sample_timelib ''timezone_converter''
        (no_time_arguments\<lparr>time_time := Some ''25:99'', time_from_timezone := Some ''UTC'',
                            time_to_timezone := Some ''JST''\<rparr>)
     = Inl (ValueError ''time data does not match format'')
   \<and> calculator_call_tool rt st ''calculate'' no_calc_arguments
     = (''Error: '' @ quoted ''expression'', st)"
proof -
  have c1: "time_call_tool lib ''time_until'' no_time_arguments = Inl (KeyError ''target_date'')"
    by (simp add: time_call_tool_def time_until_def no_time_arguments_def)
  have c2: "time_call_tool sample_timelib ''time_until''
        (no_time_arguments\<lparr>time_target_date := Some ''tomorrow''\<rparr>)
     = Inl (ValueError ''time data does not match format'')"
    by (simp add: time_call_tool_def time_until_def no_time_arguments_def get_or_def
        TIMEZONES_get_def TIMEZONES_def Let_def sample_timelib_def)
  have c3: "time_call_tool sample_timelib ''timezone_converter''
        (no_time_arguments\<lparr>time_time := Some ''25:99'', time_from_timezone := Some ''UTC'',
                            time_to_timezone := Some ''JST''\<rparr>)
     = Inl (ValueError ''time data does not match format'')"
    by (simp add: time_call_tool_def timezone_converter_def no_time_arguments_def
        TIMEZONES_get_def TIMEZONES_def Let_def sample_timelib_def)
  have c4: "calculator_call_tool rt st ''calculate'' no_calc_arguments
     = (''Error: '' @ quoted ''expression'', st)"
    by (simp add: calculator_call_tool_def calculator_try_def calculate_def no_calc_arguments_def)
  from c1 c2 c3 c4 show ?thesis by blast
qed

subsection \<open>The data server\<close>

lemma length_users_loop: "length (fst (users_loop field_names idx g)) = length idx"
proof (induction idx arbitrary: g)
  case Nil
  show ?case by simp
next
  case (Cons i rest)
  obtain user g1 where u: "make_user field_names i g = (user, g1)"
    by (cases "make_user field_names i g")
  obtain users g2 where us: "users_loop field_names rest g1 = (users, g2)"
    by (cases "users_loop field_names rest g1")
  from Cons [of g1] us have "length users = length rest" by simp
  with u us show ?case by simp
qed

lemma generate_users_store:
  "\<exists>users g. snd (generate_users st arguments)
      = st\<lparr>data_store := (data_store st)(''users'' \<mapsto> users), random_state := g\<rparr>
     \<and> length users = nat (get_or (data_count arguments) 10)"
proof -
  let ?n = "get_or (data_count arguments) 10"
  let ?f = "get_or (data_include_fields arguments) [''name'', ''email'', ''age'', ''city'']"
  obtain users g where ug: "users_loop ?f (py_range ?n) (random_state st) = (users, g)"
    by (cases "users_loop ?f (py_range ?n) (random_state st)")
  have "length users = nat ?n"
    using length_users_loop [of ?f "py_range ?n" "random_state st"] ug
    by (simp add: py_range_def)
  moreover have "snd (generate_users st arguments)
      = st\<lparr>data_store := (data_store st)(''users'' \<mapsto> users), random_state := g\<rparr>"
    using ug by (simp add: generate_users_def Let_def)
  ultimately show ?thesis by blast
qed

lemma generate_users_returns: "\<exists>t. fst (generate_users st arguments) = Inr t"
  by (simp add: generate_users_def Let_def split: prod.splits)


text \<open>
  Claim C7. \<open>generate_users\<close> assigns the key \<open>users\<close> of \<open>data_store\<close> (a list of
  \<open>count\<close> users, none for a negative count) and no other key: every other collection is
  after the call what it was before. \<open>clear_data\<close> of a collection that exists deletes that
  key and no other; of a collection that does not exist it answers
  \<open>Collection '<name>' not found\<close> and the state is unchanged.
\<close>

theorem generate_users_clear_data_frame:
  "(\<forall>k. k \<noteq> ''users'' \<longrightarrow>
       data_store (snd (call_generate_users st arguments)) k = data_store st k)
   \<and> (\<exists>users. data_store (snd (call_generate_users st arguments)) ''users'' = Some users
         \<and> length users = nat (get_or (data_count arguments) 10))
   \<and> (data_collection arguments = Some c \<and> c \<in> dom (data_store st) \<longrightarrow>
        call_clear_data st arguments
        = (''Cleared collection '' @ quoted c, st\<lparr>data_store := (data_store st)(c := None)\<rparr>)
        \<and> data_store (snd (call_clear_data st arguments)) c = None
        \<and> (\<forall>k. k \<noteq> c \<longrightarrow> data_store (snd (call_clear_data st arguments)) k = data_store st k))
   \<and> (data_collection arguments = Some c \<and> c \<notin> dom (data_store st) \<longrightarrow>
        call_clear_data st arguments = (''Collection '' @ quoted c @ '' not found'', st))"
proof -
  obtain users g where st': "snd (generate_users st arguments)
      = st\<lparr>data_store := (data_store st)(''users'' \<mapsto> users), random_state := g\<rparr>"
    and len: "length users = nat (get_or (data_count arguments) 10)"
    using generate_users_store [of st arguments] by blast
  have call: "snd (call_generate_users st arguments) = snd (generate_users st arguments)"
    by (simp add: call_generate_users_def except_Exception_def split: prod.splits sum.splits)
  have p1: "\<forall>k. k \<noteq> ''users'' \<longrightarrow>
       data_store (snd (call_generate_users st arguments)) k = data_store st k"
    by (simp add: call st')
  have p2: "\<exists>users. data_store (snd (call_generate_users st arguments)) ''users'' = Some users
         \<and> length users = nat (get_or (data_count arguments) 10)"
    using len by (simp add: call st')
  have p3: "call_clear_data st arguments
        = (''Cleared collection '' @ quoted c, st\<lparr>data_store := (data_store st)(c := None)\<rparr>)
        \<and> data_store (snd (call_clear_data st arguments)) c = None
        \<and> (\<forall>k. k \<noteq> c \<longrightarrow> data_store (snd (call_clear_data st arguments)) k = data_store st k)"
    if "data_collection arguments = Some c" "c \<in> dom (data_store st)"
    using that by (simp add: call_clear_data_def clear_data_def except_Exception_def)
  have p4: "call_clear_data st arguments = (''Collection '' @ quoted c @ '' not found'', st)"
    if "data_collection arguments = Some c" "c \<notin> dom (data_store st)"
    using that by (simp add: call_clear_data_def clear_data_def except_Exception_def)
  from p1 p2 p3 p4 show ?thesis by blast
qed

theorem generate_users_clear_data_frame_witness:
  "data_store (snd (call_generate_users \<lparr>data_store = sample_store, random_state = [3, 1]\<rparr>
                      (no_data_arguments\<lparr>data_count := Some 1, data_include_fields := Some [''name'']\<rparr>)))
     ''products'' = sample_store ''products''
   \<and> data_store (snd (call_generate_users \<lparr>data_store = sample_store, random_state = [3, 1]\<rparr>
                      (no_data_arguments\<lparr>data_count := Some 1, data_include_fields := Some [''name'']\<rparr>)))
     ''users'' = Some [[(''id'', VNum (I 1)), (''name'', VStr ''Diana Johnson'')]]
   \<and> data_store (snd (call_clear_data \<lparr>data_store = sample_store, random_state = []\<rparr>
                      (no_data_arguments\<lparr>data_collection := Some ''products''\<rparr>)))
     ''products'' = None
   \<and> call_clear_data \<lparr>data_store = sample_store, random_state = []\<rparr>
                      (no_data_arguments\<lparr>data_collection := Some ''users''\<rparr>)
     = (''Collection '' @ quoted ''users'' @ '' not found'',
        \<lparr>data_store = sample_store, random_state = []\<rparr>)"
proof -
  have c2: "data_store (snd (call_generate_users \<lparr>data_store = sample_store, random_state = [3, 1]\<rparr>
                      (no_data_arguments\<lparr>data_count := Some 1, data_include_fields := Some [''name'']\<rparr>)))
     ''users'' = Some [[(''id'', VNum (I 1)), (''name'', VStr ''Diana Johnson'')]]"
    by (simp add: call_generate_users_def except_Exception_def generate_users_def get_or_def
        no_data_arguments_def py_range_def make_user_def pick_def randbelow_def FIRST_NAMES_def
        LAST_NAMES_def Let_def upt_rec)
  have dom1: "''products'' \<in> dom sample_store" "''users'' \<notin> dom sample_store"
    by (simp_all add: sample_store_def)
  from generate_users_clear_data_frame [where st = "\<lparr>data_store = sample_store, random_state = [3, 1]\<rparr>"
      and arguments = "no_data_arguments\<lparr>data_count := Some 1, data_include_fields := Some [''name'']\<rparr>"
      and c = "''x''"]
  have c1: "data_store (snd (call_generate_users \<lparr>data_store = sample_store, random_state = [3, 1]\<rparr>
                      (no_data_arguments\<lparr>data_count := Some 1, data_include_fields := Some [''name'']\<rparr>)))
     ''products'' = sample_store ''products''"
    by simp
  from generate_users_clear_data_frame [where st = "\<lparr>data_store = sample_store, random_state = []\<rparr>"
      and arguments = "no_data_arguments\<lparr>data_collection := Some ''products''\<rparr>"
      and c = "''products''"] dom1
  have c3: "data_store (snd (call_clear_data \<lparr>data_store = sample_store, random_state = []\<rparr>
                      (no_data_arguments\<lparr>data_collection := Some ''products''\<rparr>)))
     ''products'' = None"
    by (simp add: no_data_arguments_def)
  from generate_users_clear_data_frame [where st = "\<lparr>data_store = sample_store, random_state = []\<rparr>"
      and arguments = "no_data_arguments\<lparr>data_collection := Some ''users''\<rparr>"
      and c = "''users''"] dom1
  have c4: "call_clear_data \<lparr>data_store = sample_store, random_state = []\<rparr>
                      (no_data_arguments\<lparr>data_collection := Some ''users''\<rparr>)
     = (''Collection '' @ quoted ''users'' @ '' not found'',
        \<lparr>data_store = sample_store, random_state = []\<rparr>)"
    by (simp add: no_data_arguments_def)
  from c1 c2 c3 c4 show ?thesis by blast
qed








text \<open>\<open>py_round\<close> is a rounding: it is off by at most half a unit of the last digit kept.\<close>

lemma round_half_even_near: "\<bar>of_int (round_half_even x) - x\<bar> \<le> 1 / 2"
  by (auto simp: round_half_even_def Let_def abs_le_iff)

lemma py_round_near: "\<bar>py_round x n - x\<bar> \<le> 1 / (2 * 10 ^ n)"
proof -
  let ?d = "of_int (round_half_even (x * 10 ^ n)) - x * 10 ^ n"
  have "\<bar>?d\<bar> \<le> 1 / 2"
    by (rule round_half_even_near)
  then have "\<bar>?d\<bar> / 10 ^ n \<le> (1 / 2) / 10 ^ n"
    by (rule divide_right_mono) simp
  moreover have "\<bar>?d\<bar> / 10 ^ n = \<bar>py_round x n - x\<bar>"
  proof -
    have "py_round x n - x = ?d / 10 ^ n"
      by (simp add: py_round_def diff_divide_distrib)
    moreover have "\<bar>(10::real) ^ n\<bar> = 10 ^ n" by simp
    ultimately show ?thesis by (simp only: abs_divide)
  qed
  ultimately show ?thesis by simp
qed





























end
